theory Spec2Isabelle
  imports Main "HOL-Library.Word" "HOL-Library.Sublist"
begin

section \<open>The access-point module \<open>spiro/hostapd.py\<close>\<close>

text \<open>
  The module shells out to the package manager and the service manager, writes three
  configuration files and logs its progress. The embedding threads an explicit
  \<open>world\<close> through every function: the commands run so far (with what came back), the
  contents of the files written, the lines logged and the number of identifiers drawn.
  What the operating system answers is not decided by the module, so it is a parameter
  (\<open>system\<close>): any exit status and any output for any command, depending on everything
  that happened before.

  Library calls are followed on their returning path. An exception escaping
  \<open>subprocess.run\<close> or \<open>open\<close> is caught nowhere in the module and ends the run.
\<close>

subsection \<open>Strings: the library functions the module calls\<close>

abbreviation nl :: char where
  "nl \<equiv> CHR 0x0A"

text \<open>\<open>'\n'.join(lines)\<close> and \<open>text.split('\n')\<close>.\<close>

fun join_nl :: "string list \<Rightarrow> string" where
  "join_nl [] = []"
| "join_nl [l] = l"
| "join_nl (l # m # ls) = l @ nl # join_nl (m # ls)"

fun split_nl :: "string \<Rightarrow> string list" where
  "split_nl [] = [[]]"
| "split_nl (c # cs) =
     (if c = nl then [] # split_nl cs
      else (case split_nl cs of [] \<Rightarrow> [[c]] | l # ls \<Rightarrow> (c # l) # ls))"

text \<open>The slice \<open>s[i:j]\<close> for indices \<open>0 \<le> i \<le> j\<close>; Python clips it to the string.\<close>

definition slice :: "nat \<Rightarrow> nat \<Rightarrow> string \<Rightarrow> string" where
  "slice i j s = take (j - i) (drop i s)"

text \<open>
  \<open>template.format(a, b)\<close> for a template whose only braces are the fields \<open>{0}\<close> and
  \<open>{1}\<close>, which is the case of both templates of the module. The arguments are pasted
  in as they are and not scanned again.
\<close>

fun format2 :: "string \<Rightarrow> string \<Rightarrow> string \<Rightarrow> string" where
  "format2 [] a b = []"
| "format2 (c # cs) a b =
     (if take 3 (c # cs) = ''{0}'' then a @ format2 (drop 2 cs) a b
      else if take 3 (c # cs) = ''{1}'' then b @ format2 (drop 2 cs) a b
      else c # format2 cs a b)"

text \<open>\<open>str(n)\<close> of a Python integer.\<close>

fun dec_nat :: "nat \<Rightarrow> string" where
  "dec_nat n = (if n < 10 then [''0123456789'' ! n]
                else dec_nat (n div 10) @ [''0123456789'' ! (n mod 10)])"

declare dec_nat.simps [simp del]

definition str_int :: "int \<Rightarrow> string" where
  "str_int i = (if i < 0 then CHR ''-'' # dec_nat (nat (- i)) else dec_nat (nat i))"

text \<open>
  \<open>textwrap.dedent\<close>: lines made of blanks and tabs only become empty; the margin is the
  longest run of blanks and tabs that starts every other line; it is removed from each
  line that starts with it. The steps are those of the library's function: the two
  regular expressions, the loop that narrows the margin, the final substitution.
\<close>

definition is_ws :: "char \<Rightarrow> bool" where
  "is_ws c = (c = CHR '' '' \<or> c = CHR 0x09)"

definition blank_out :: "string \<Rightarrow> string" where
  "blank_out l = (if list_all is_ws l then [] else l)"

definition indents :: "string list \<Rightarrow> string list" where
  "indents ls = map (takeWhile is_ws) (filter (\<lambda>l. dropWhile is_ws l \<noteq> []) ls)"

definition narrow :: "string option \<Rightarrow> string \<Rightarrow> string option" where
  "narrow margin indent =
     (case margin of
        None \<Rightarrow> Some indent
      | Some m \<Rightarrow>
          if prefix m indent then Some m
          else if prefix indent m then Some indent
          else Some (longest_common_prefix m indent))"

definition strip_margin :: "string \<Rightarrow> string \<Rightarrow> string" where
  "strip_margin m l = (if prefix m l then drop (length m) l else l)"

definition dedent :: "string \<Rightarrow> string" where
  "dedent text =
     (let ls = map blank_out (split_nl text) in
      case foldl narrow None (indents ls) of
        None \<Rightarrow> join_nl ls
      | Some m \<Rightarrow> if m = [] then join_nl ls else join_nl (map (strip_margin m) ls))"

text \<open>A line of a template that carries text: not empty, no leading blank, no line break.\<close>

definition code_line :: "string \<Rightarrow> bool" where
  "code_line l = (l \<noteq> [] \<and> \<not> is_ws (hd l) \<and> nl \<notin> set l)"

subsection \<open>Identifiers: \<open>uuid.uuid1()\<close> and its canonical string\<close>

text \<open>
  A \<open>UUID\<close> object holds a 128-bit integer. \<open>str\<close> prints it as \<open>'%032x'\<close> (lower-case
  hexadecimal, padded with zeros to 32 characters) cut into the groups 8-4-4-4-12 with
  hyphens between them.
\<close>

type_synonym uuid = "128 word"

fun hex_nat :: "nat \<Rightarrow> string" where
  "hex_nat n = (if n < 16 then [''0123456789abcdef'' ! n]
                else hex_nat (n div 16) @ [''0123456789abcdef'' ! (n mod 16)])"

declare hex_nat.simps [simp del]

definition zfill :: "nat \<Rightarrow> string \<Rightarrow> string" where
  "zfill width s = replicate (width - length s) CHR ''0'' @ s"

definition uuid_hex :: "uuid \<Rightarrow> string" where
  "uuid_hex u = zfill 32 (hex_nat (unat u))"

definition uuid_str :: "uuid \<Rightarrow> string" where
  "uuid_str u =
     (let x = uuid_hex u in
      take 8 x @ ''-'' @ slice 8 12 x @ ''-'' @ slice 12 16 x @ ''-'' @ slice 16 20 x
        @ ''-'' @ drop 20 x)"

definition is_hex :: "char \<Rightarrow> bool" where
  "is_hex c = (c \<in> set ''0123456789abcdef'')"

subsection \<open>The world and the operating system\<close>

text \<open>
  \<open>subprocess.run\<close> returns a \<open>CompletedProcess\<close>: the arguments, the exit status and
  the captured streams (\<open>None\<close> for a stream that was not captured). What a process
  prints is a sequence of chunks, each on standard output or on standard error; the
  keyword arguments of \<open>run\<close> decide which of them land in \<open>stdout\<close> and \<open>stderr\<close>.
\<close>

datatype stream = Out | Err

record outcome =
  exit_status :: int
  printed :: "(stream \<times> string) list"

record completed =
  args :: "string list"
  returncode :: int
  stdout :: "string option"
  stderr :: "string option"

datatype capture =
    StdoutPipe         \<comment> \<open>\<open>stdout=PIPE\<close>\<close>
  | StderrToStdout     \<comment> \<open>\<open>stderr=STDOUT, stdout=PIPE\<close>\<close>
  | CaptureOutput      \<comment> \<open>\<open>capture_output=True\<close>\<close>

datatype level = Info | Debug

record world =
  calls :: "completed list"
  files :: "string \<rightharpoonup> string"
  logged :: "(level \<times> string) list"
  uuids_drawn :: nat

record system =
  spawn :: "world \<Rightarrow> string list \<Rightarrow> outcome"
  uuid1 :: "world \<Rightarrow> uuid"

definition only :: "stream \<Rightarrow> (stream \<times> string) list \<Rightarrow> string" where
  "only s chunks = concat (map snd (filter (\<lambda>c. fst c = s) chunks))"

fun captured_stdout :: "capture \<Rightarrow> (stream \<times> string) list \<Rightarrow> string option" where
  "captured_stdout StdoutPipe chunks = Some (only Out chunks)"
| "captured_stdout StderrToStdout chunks = Some (concat (map snd chunks))"
| "captured_stdout CaptureOutput chunks = Some (only Out chunks)"

fun captured_stderr :: "capture \<Rightarrow> (stream \<times> string) list \<Rightarrow> string option" where
  "captured_stderr StdoutPipe chunks = None"
| "captured_stderr StderrToStdout chunks = None"
| "captured_stderr CaptureOutput chunks = Some (only Err chunks)"

definition run :: "system \<Rightarrow> string list \<Rightarrow> capture \<Rightarrow> world \<Rightarrow> completed \<times> world" where
  "run sys argv cap w =
     (let oc = spawn sys w argv;
          p = \<lparr>args = argv, returncode = exit_status oc,
               stdout = captured_stdout cap (printed oc),
               stderr = captured_stderr cap (printed oc)\<rparr>
      in (p, w\<lparr>calls := calls w @ [p]\<rparr>))"

text \<open>\<open>open(path, "w")\<close> empties the file; \<open>f.write\<close> appends to it.\<close>

definition open_w :: "string \<Rightarrow> world \<Rightarrow> world" where
  "open_w path w = w\<lparr>files := (files w)(path \<mapsto> [])\<rparr>"

definition write_file :: "string \<Rightarrow> string \<Rightarrow> world \<Rightarrow> world" where
  "write_file path s w =
     w\<lparr>files := (files w)(path \<mapsto> (case files w path of None \<Rightarrow> s | Some old \<Rightarrow> old @ s))\<rparr>"

text \<open>
  Modelled from the spec: \<open>spiro/logger.py\<close> (\<open>log\<close>, \<open>debug\<close>) is not among the sources.
  The spec calls it a log sink taking informational and debug-level text lines; each
  call adds its line, with its level, to the lines logged.
\<close>

definition log :: "string \<Rightarrow> world \<Rightarrow> world" where
  "log msg w = w\<lparr>logged := logged w @ [(Info, msg)]\<rparr>"

definition debug :: "string \<Rightarrow> world \<Rightarrow> world" where
  "debug msg w = w\<lparr>logged := logged w @ [(Debug, msg)]\<rparr>"

subsection \<open>The module\<close>

definition init :: "system \<Rightarrow> world \<Rightarrow> world" where
  "init sys w = snd (run sys [''systemctl'', ''daemon-reload''] StderrToStdout w)"

text \<open>
  \<open>install_reqs\<close>: the loop over \<open>reqs\<close>, with its early \<open>return (False, p.stdout)\<close>.
\<close>

fun install_loop :: "system \<Rightarrow> string list \<Rightarrow> world \<Rightarrow> (bool \<times> string option) \<times> world" where
  "install_loop sys [] w = ((True, None), w)"
| "install_loop sys (r # rs) w =
     (let (p, w1) = run sys [''dpkg'', ''-l'', r] StdoutPipe w in
      if returncode p \<noteq> 0 then
        (let (p, w2) = run sys [''apt'', ''install'', ''-y'', r] StderrToStdout w1 in
         if returncode p \<noteq> 0 then ((False, stdout p), w2)
         else
           (let (p, w3) = run sys [''systemctl'', ''stop'', r] StderrToStdout w2 in
            install_loop sys rs w3))
      else install_loop sys rs w1)"

definition install_reqs :: "system \<Rightarrow> world \<Rightarrow> (bool \<times> string option) \<times> world" where
  "install_reqs sys w = install_loop sys [''dnsmasq'', ''hostapd''] w"

definition hostapd_template :: string where
  "hostapd_template = join_nl
    [''                                # auto-generated by spiro software'',
     ''                                interface=wlan0'',
     ''                                driver=nl80211'',
     ''                                ssid={0}'',
     ''                                hw_mode=g'',
     ''                                channel=7'',
     ''                                wmm_enabled=0'',
     ''                                macaddr_acl=0'',
     ''                                auth_algs=1'',
     ''                                ignore_broadcast_ssid=0'',
     ''                                wpa=2'',
     ''                                wpa_passphrase={1}'',
     ''                                wpa_key_mgmt=WPA-PSK'',
     ''                                wpa_pairwise=TKIP'',
     ''                                rsn_pairwise=CCMP'',
     ''                                '']"

definition config_hostapd :: "system \<Rightarrow> world \<Rightarrow> (string \<times> string) \<times> world" where
  "config_hostapd sys w =
     (let u = uuid_str (uuid1 sys w);
          w1 = w\<lparr>uuids_drawn := uuids_drawn w + 1\<rparr>;
          id = ''spiro-'' @ slice 30 36 u;
          pwd = slice 0 8 u;
          w2 = open_w ''/etc/hostapd/hostapd.conf'' w1;
          w3 = write_file ''/etc/hostapd/hostapd.conf'' (dedent (format2 hostapd_template id pwd)) w2
      in ((id, pwd), w3))"

definition dnsmasq_template :: string where
  "dnsmasq_template = join_nl
    [''                                # auto-generated by spiro software'',
     ''                                interface=wlan0'',
     ''                                dhcp-range=192.168.138.10,192.168.138.254,12h'',
     ''                                address=/#/192.168.138.1'',
     ''                                no-resolv'',
     ''                                no-poll'',
     ''                                no-hosts'',
     ''                                domain=spiro.local'',
     ''                                '']"

definition config_dnsmasq :: "world \<Rightarrow> world" where
  "config_dnsmasq w =
     (let w1 = open_w ''/etc/dnsmasq.conf'' w
      in write_file ''/etc/dnsmasq.conf'' (dedent dnsmasq_template) w1)"

definition dhcpcd_template :: string where
  "dhcpcd_template = join_nl
    [''                                # auto-generated by spiro software'',
     ''                                hostname'',
     ''                                clientid'',
     ''                                persistent'',
     ''                                option rapid_commit'',
     ''                                option domain_name_servers, domain_name, domain_search, host_name'',
     ''                                option classless_static_routes'',
     ''                                option interface_mtu'',
     ''                                option ntp_servers'',
     ''                                require dhcp_server_identifier'',
     ''                                slaac private'',
     ''                                '']"

definition dhcpcd_static_template :: string where
  "dhcpcd_static_template = join_nl
    [''                                    interface wlan0'',
     ''                                    static ip_address=192.168.138.1/24'',
     ''                                    nohook wpa_supplicant'',
     ''                                    '']"

definition config_dhcpcd :: "bool \<Rightarrow> world \<Rightarrow> world" where
  "config_dhcpcd enable w =
     (let w1 = open_w ''/etc/dhcpcd.conf'' w;
          w2 = write_file ''/etc/dhcpcd.conf'' (dedent dhcpcd_template) w1
      in if enable = True then write_file ''/etc/dhcpcd.conf'' (dedent dhcpcd_static_template) w2
         else w2)"

text \<open>\<open>restart_services\<close>: the loop appends each exit status to \<open>codes\<close>.\<close>

fun restart_loop :: "system \<Rightarrow> string list \<Rightarrow> int list \<Rightarrow> world \<Rightarrow> int list \<times> world" where
  "restart_loop sys [] codes w = (codes, w)"
| "restart_loop sys (s # ss) codes w =
     (let (p, w1) = run sys [''systemctl'', ''restart'', s] StderrToStdout w;
          w2 = debug (format2 ''Restarted service {0} with status code {1}.'' s
                        (str_int (returncode p))) w1
      in restart_loop sys ss (codes @ [returncode p]) w2)"

definition restart_services :: "system \<Rightarrow> world \<Rightarrow> bool \<times> world" where
  "restart_services sys w =
     (let (codes, w1) = restart_loop sys [''dhcpcd'', ''dnsmasq'', ''hostapd''] [] w
      in (list_all (\<lambda>c. c = 0) codes, w1))"

fun enable_loop :: "system \<Rightarrow> string list \<Rightarrow> world \<Rightarrow> world" where
  "enable_loop sys [] w = w"
| "enable_loop sys (s # ss) w =
     (let (p, w1) = run sys [''systemctl'', ''unmask'', s] CaptureOutput w;
          (p, w2) = run sys [''systemctl'', ''enable'', s] CaptureOutput w1
      in enable_loop sys ss w2)"

definition enable_services :: "system \<Rightarrow> world \<Rightarrow> world" where
  "enable_services sys w = enable_loop sys [''dnsmasq'', ''hostapd''] w"

fun disable_loop :: "system \<Rightarrow> string list \<Rightarrow> world \<Rightarrow> world" where
  "disable_loop sys [] w = w"
| "disable_loop sys (s # ss) w =
     (let (p, w1) = run sys [''systemctl'', ''stop'', s] CaptureOutput w;
          (p, w2) = run sys [''systemctl'', ''disable'', s] CaptureOutput w1
      in disable_loop sys ss w2)"

definition disable_services :: "system \<Rightarrow> world \<Rightarrow> world" where
  "disable_services sys w = disable_loop sys [''dnsmasq'', ''hostapd''] w"

definition start_ap :: "system \<Rightarrow> world \<Rightarrow> int \<times> world" where
  "start_ap sys w0 =
     (let w1 = log ''Setting up dependencies...'' w0;
          w2 = init sys w1;
          (_, w3) = install_reqs sys w2;
          w4 = log ''Configuring system...'' w3;
          w5 = config_dhcpcd True w4;
          w6 = config_dnsmasq w5;
          ((ssid, pwd), w7) = config_hostapd sys w6;
          w8 = log ''Starting services...'' w7;
          w9 = enable_services sys w8;
          (r, w10) = restart_services sys w9
      in if \<not> r then
           (let w11 = log ''Failed to restart services.'' w10;
                w12 = log ''Setting up access point failed.'' w11
            in (1, w12))
         else
           (let w11 = log ''Access point configured and enabled. Below are the details for connecting to it:'' w10;
                w12 = log (nl # ''SSID:     '' @ ssid) w11;
                w13 = log (''Password: '' @ pwd) w12;
                w14 = log (nl # ''Connect to the web interface using the address http://spiro.local'') w13
            in (0, w14)))"

text \<open>
  \<open>stop_ap\<close> has no \<open>return\<close> statement: its value is Python's \<open>None\<close> and the model
  returns the world alone.
\<close>

definition stop_ap :: "system \<Rightarrow> world \<Rightarrow> world" where
  "stop_ap sys w0 =
     (let w1 = log ''Disabling services...'' w0;
          w2 = disable_services sys w1
      in log ''Access point disabled.'' w2)"

text \<open>The commands a call added to the world's record of commands.\<close>

definition new_calls :: "world \<Rightarrow> world \<Rightarrow> completed list" where
  "new_calls w w' = drop (length (calls w)) (calls w')"

subsection \<open>What \<open>install_reqs\<close> may do, in terms of the commands it runs\<close>

text \<open>
  The three courses a package can take: found by the query; missing, installed and its
  service stopped; missing and not installable. \<open>install_trace\<close> reads a whole run:
  the packages in order, each taking one of the three courses, the run ending at the
  first package that cannot be installed, with that command's captured output as the
  second component of the result.
\<close>

fun present :: "string \<Rightarrow> completed list \<Rightarrow> bool" where
  "present r [q] = (args q = [''dpkg'', ''-l'', r] \<and> returncode q = 0)"
| "present r ps = False"

fun installed :: "string \<Rightarrow> completed list \<Rightarrow> bool" where
  "installed r [q, i, s] =
     (args q = [''dpkg'', ''-l'', r] \<and> returncode q \<noteq> 0
      \<and> args i = [''apt'', ''install'', ''-y'', r] \<and> returncode i = 0
      \<and> args s = [''systemctl'', ''stop'', r])"
| "installed r ps = False"

fun failed :: "string \<Rightarrow> completed list \<Rightarrow> bool" where
  "failed r [q, i] =
     (args q = [''dpkg'', ''-l'', r] \<and> returncode q \<noteq> 0
      \<and> args i = [''apt'', ''install'', ''-y'', r] \<and> returncode i \<noteq> 0)"
| "failed r ps = False"

fun install_trace :: "string list \<Rightarrow> completed list \<Rightarrow> bool \<times> string option \<Rightarrow> bool" where
  "install_trace [] ps res = (ps = [] \<and> res = (True, None))"
| "install_trace (r # rs) ps res =
     (present r (take 1 ps) \<and> install_trace rs (drop 1 ps) res
      \<or> installed r (take 3 ps) \<and> install_trace rs (drop 3 ps) res
      \<or> failed r ps \<and> res = (False, stdout (last ps)))"

text \<open>
  \<open>answered\<close> ties the records of a run to the system: each command's exit status is
  the one the system gives for that command in the world as it was when the command
  was run, which is the starting world with the records before it added.
\<close>

fun answered :: "system \<Rightarrow> world \<Rightarrow> completed list \<Rightarrow> bool" where
  "answered sys w [] = True"
| "answered sys w (p # ps) =
     (returncode p = exit_status (spawn sys w (args p))
      \<and> answered sys (w\<lparr>calls := calls w @ [p]\<rparr>) ps)"

subsection \<open>Sample worlds and systems\<close>

text \<open>
  A world in which nothing has happened yet, and a system whose commands exit with the
  status a table gives them, print one line on each stream, and whose identifier
  generator returns one fixed value.
\<close>

definition fresh_world :: world where
  "fresh_world = \<lparr>calls = [], files = Map.empty, logged = [], uuids_drawn = 0\<rparr>"

definition scripted :: "(string list \<Rightarrow> int) \<Rightarrow> system" where
  "scripted status =
     \<lparr>spawn = (\<lambda>w argv. \<lparr>exit_status = status argv,
                              printed = [(Out, ''out;''), (Err, ''err;'')]\<rparr>),
      uuid1 = (\<lambda>w. 0x123e4567e89b12d3a456426614174000)\<rparr>"

section \<open>Library functions on the module's templates\<close>

subsection \<open>Removing the margin of an evenly indented text\<close>

lemma split_nl_nonempty: "split_nl s \<noteq> []"
  by (induction s) (auto split: list.splits)

lemma split_nl_no_nl: "nl \<notin> set s \<Longrightarrow> split_nl s = [s]"
  by (induction s) auto

lemma split_nl_append:
  "nl \<notin> set l \<Longrightarrow> split_nl (l @ nl # rest) = l # split_nl rest"
  by (induction l) auto

lemma split_join_nl:
  "ls \<noteq> [] \<Longrightarrow> \<forall>l\<in>set ls. nl \<notin> set l \<Longrightarrow> split_nl (join_nl ls) = ls"
proof (induction ls rule: join_nl.induct)
  case 1
  then show ?case by simp
next
  case (2 l)
  then show ?case by (simp add: split_nl_no_nl)
next
  case (3 l m ls)
  then show ?case by (simp add: split_nl_append)
qed

lemma is_ws_nl: "\<not> is_ws nl"
  by (simp add: is_ws_def)

lemma is_ws_not_nl: "list_all is_ws m \<Longrightarrow> nl \<notin> set m"
  using is_ws_nl by (induction m) auto

lemma blank_out_indented:
  "l \<noteq> [] \<Longrightarrow> \<not> is_ws (hd l) \<Longrightarrow> blank_out (m @ l) = m @ l"
  by (cases l) (auto simp: blank_out_def)

lemma takeWhile_indented:
  "list_all is_ws m \<Longrightarrow> l \<noteq> [] \<Longrightarrow> \<not> is_ws (hd l) \<Longrightarrow> takeWhile is_ws (m @ l) = m"
  by (cases l) (auto simp: list_all_iff)

lemma dropWhile_indented:
  "list_all is_ws m \<Longrightarrow> l \<noteq> [] \<Longrightarrow> \<not> is_ws (hd l) \<Longrightarrow> dropWhile is_ws (m @ l) = l"
  by (cases l) (auto simp: list_all_iff)


lemma indents_indented:
  "list_all is_ws m \<Longrightarrow> list_all code_line body \<Longrightarrow>
     indents (map ((@) m) body @ [[]]) = replicate (length body) m"
  by (induction body) (auto simp: indents_def code_line_def takeWhile_indented dropWhile_indented)

lemma narrow_same: "narrow (Some m) m = Some m"
  by (simp add: narrow_def)

lemma foldl_narrow_replicate: "foldl narrow (Some m) (replicate n m) = Some m"
  by (induction n) (auto simp: narrow_same)

lemma margin_replicate: "0 < n \<Longrightarrow> foldl narrow None (replicate n m) = Some m"
  by (cases n) (auto simp: foldl_narrow_replicate narrow_def)

lemma strip_margin_indented: "strip_margin m (m @ l) = l"
  by (simp add: strip_margin_def)

lemma strip_margin_empty: "m \<noteq> [] \<Longrightarrow> strip_margin m [] = []"
  by (simp add: strip_margin_def)

lemma dedent_indented:
  assumes m: "m \<noteq> []" "list_all is_ws m"
    and body: "body \<noteq> []" "list_all code_line body"
    and t: "list_all is_ws t"
  shows "dedent (join_nl (map ((@) m) body @ [t])) = join_nl (body @ [[]])"
proof -
  let ?ls = "map ((@) m) body @ [t]"
  have no_nl: "\<forall>l\<in>set ?ls. nl \<notin> set l"
    using m(2) body(2) t by (auto simp: list_all_iff code_line_def dest: is_ws_not_nl [unfolded list_all_iff])
  have split: "split_nl (join_nl ?ls) = ?ls"
    by (rule split_join_nl) (use no_nl in auto)
  have blank: "map blank_out ?ls = map ((@) m) body @ [[]]"
    using body(2) t by (auto simp: list_all_iff code_line_def blank_out_indented blank_out_def)
  have margin: "foldl narrow None (indents (map ((@) m) body @ [[]])) = Some m"
    using m body by (simp add: indents_indented margin_replicate)
  have strip: "map (strip_margin m) (map ((@) m) body @ [[]]) = body @ [[]]"
    using m(1) by (simp add: strip_margin_indented strip_margin_empty o_def)
  show ?thesis
    unfolding dedent_def split Let_def blank margin using m(1) strip by simp
qed

subsection \<open>Filling in the fields of a template\<close>

lemma format2_plain: "c \<noteq> CHR ''{'' \<Longrightarrow> format2 (c # cs) a b = c # format2 cs a b"
  by simp

lemma format2_field0: "format2 (CHR ''{'' # CHR ''0'' # CHR ''}'' # cs) a b = a @ format2 cs a b"
  by simp

lemma format2_field1: "format2 (CHR ''{'' # CHR ''1'' # CHR ''}'' # cs) a b = b @ format2 cs a b"
  by simp

subsection \<open>The text of the four templates\<close>

lemma dnsmasq_text: "dedent dnsmasq_template = join_nl
    [''# auto-generated by spiro software'',
     ''interface=wlan0'',
     ''dhcp-range=192.168.138.10,192.168.138.254,12h'',
     ''address=/#/192.168.138.1'',
     ''no-resolv'',
     ''no-poll'',
     ''no-hosts'',
     ''domain=spiro.local'',
     '''']"
proof -
  let ?m = "''                                ''"
  let ?body = "[''# auto-generated by spiro software'',
     ''interface=wlan0'',
     ''dhcp-range=192.168.138.10,192.168.138.254,12h'',
     ''address=/#/192.168.138.1'',
     ''no-resolv'',
     ''no-poll'',
     ''no-hosts'',
     ''domain=spiro.local'']"
  have shape: "dnsmasq_template = join_nl (map ((@) ?m) ?body @ [?m])"
    unfolding dnsmasq_template_def by simp
  have "dedent (join_nl (map ((@) ?m) ?body @ [?m])) = join_nl (?body @ [[]])"
    by (rule dedent_indented) (simp_all add: is_ws_def code_line_def)
  then show ?thesis unfolding shape by simp
qed

lemma dhcpcd_text: "dedent dhcpcd_template = join_nl
    [''# auto-generated by spiro software'',
     ''hostname'',
     ''clientid'',
     ''persistent'',
     ''option rapid_commit'',
     ''option domain_name_servers, domain_name, domain_search, host_name'',
     ''option classless_static_routes'',
     ''option interface_mtu'',
     ''option ntp_servers'',
     ''require dhcp_server_identifier'',
     ''slaac private'',
     '''']"
proof -
  let ?m = "''                                ''"
  let ?body = "[''# auto-generated by spiro software'',
     ''hostname'',
     ''clientid'',
     ''persistent'',
     ''option rapid_commit'',
     ''option domain_name_servers, domain_name, domain_search, host_name'',
     ''option classless_static_routes'',
     ''option interface_mtu'',
     ''option ntp_servers'',
     ''require dhcp_server_identifier'',
     ''slaac private'']"
  have shape: "dhcpcd_template = join_nl (map ((@) ?m) ?body @ [?m])"
    unfolding dhcpcd_template_def by simp
  have "dedent (join_nl (map ((@) ?m) ?body @ [?m])) = join_nl (?body @ [[]])"
    by (rule dedent_indented) (simp_all add: is_ws_def code_line_def)
  then show ?thesis unfolding shape by simp
qed

lemma dhcpcd_static_text: "dedent dhcpcd_static_template = join_nl
    [''interface wlan0'',
     ''static ip_address=192.168.138.1/24'',
     ''nohook wpa_supplicant'',
     '''']"
proof -
  let ?m = "''                                    ''"
  let ?body = "[''interface wlan0'',
     ''static ip_address=192.168.138.1/24'',
     ''nohook wpa_supplicant'']"
  have shape: "dhcpcd_static_template = join_nl (map ((@) ?m) ?body @ [?m])"
    unfolding dhcpcd_static_template_def by simp
  have "dedent (join_nl (map ((@) ?m) ?body @ [?m])) = join_nl (?body @ [[]])"
    by (rule dedent_indented) (simp_all add: is_ws_def code_line_def)
  then show ?thesis unfolding shape by simp
qed

lemma hostapd_text:
  assumes "nl \<notin> set a" "nl \<notin> set b"
  shows "dedent (format2 hostapd_template a b) = join_nl
    [''# auto-generated by spiro software'',
     ''interface=wlan0'',
     ''driver=nl80211'',
     ''ssid='' @ a,
     ''hw_mode=g'',
     ''channel=7'',
     ''wmm_enabled=0'',
     ''macaddr_acl=0'',
     ''auth_algs=1'',
     ''ignore_broadcast_ssid=0'',
     ''wpa=2'',
     ''wpa_passphrase='' @ b,
     ''wpa_key_mgmt=WPA-PSK'',
     ''wpa_pairwise=TKIP'',
     ''rsn_pairwise=CCMP'',
     '''']"
proof -
  let ?m = "''                                ''"
  let ?body = "[''# auto-generated by spiro software'',
     ''interface=wlan0'',
     ''driver=nl80211'',
     ''ssid='' @ a,
     ''hw_mode=g'',
     ''channel=7'',
     ''wmm_enabled=0'',
     ''macaddr_acl=0'',
     ''auth_algs=1'',
     ''ignore_broadcast_ssid=0'',
     ''wpa=2'',
     ''wpa_passphrase='' @ b,
     ''wpa_key_mgmt=WPA-PSK'',
     ''wpa_pairwise=TKIP'',
     ''rsn_pairwise=CCMP'']"
  have shape: "format2 hostapd_template a b = join_nl (map ((@) ?m) ?body @ [?m])"
    unfolding hostapd_template_def
    by (simp add: format2_plain format2_field0 format2_field1 del: format2.simps(2))
  have "dedent (join_nl (map ((@) ?m) ?body @ [?m])) = join_nl (?body @ [[]])"
    by (rule dedent_indented) (use assms in \<open>simp_all add: is_ws_def code_line_def\<close>)
  then show ?thesis unfolding shape by simp
qed

subsection \<open>The canonical string of an identifier\<close>

lemma length_hex_nat: "0 < k \<Longrightarrow> n < 16 ^ k \<Longrightarrow> length (hex_nat n) \<le> k"
proof (induction k arbitrary: n)
  case 0
  then show ?case by simp
next
  case (Suc k)
  show ?case
  proof (cases "n < 16")
    case True
    then show ?thesis by (simp add: hex_nat.simps [of n])
  next
    case False
    with Suc.prems have k: "0 < k" by (cases k) auto
    from Suc.prems have "n div 16 < 16 ^ k"
      by (simp add: less_mult_imp_div_less mult.commute)
    with Suc.IH k have "length (hex_nat (n div 16)) \<le> k" by blast
    with False show ?thesis by (simp add: hex_nat.simps [of n])
  qed
qed

lemma hex_digit: "d < 16 \<Longrightarrow> is_hex (''0123456789abcdef'' ! d)"
  unfolding is_hex_def by (rule nth_mem) simp

lemma hex_nat_is_hex: "list_all is_hex (hex_nat n)"
proof (induction n rule: hex_nat.induct)
  case (1 n)
  show ?case
  proof (cases "n < 16")
    case True
    then show ?thesis by (simp add: hex_nat.simps [of n] hex_digit)
  next
    case False
    with 1 show ?thesis by (simp add: hex_nat.simps [of n] hex_digit)
  qed
qed

lemma length_uuid_hex: "length (uuid_hex u) = 32"
proof -
  have "unat u < 2 ^ 128" using unsigned_less [of u] by simp
  then have "unat u < 16 ^ 32" by simp
  then have "length (hex_nat (unat u)) \<le> 32" by (intro length_hex_nat) simp_all
  then show ?thesis by (simp add: uuid_hex_def zfill_def)
qed

lemma uuid_hex_is_hex: "list_all is_hex (uuid_hex u)"
  by (simp add: uuid_hex_def zfill_def hex_nat_is_hex is_hex_def list_all_iff [of _ "replicate _ _"])

lemma length_uuid_str: "length (uuid_str u) = 36"
  by (simp add: uuid_str_def Let_def slice_def length_uuid_hex)

lemma uuid_str_tail: "slice 30 36 (uuid_str u) = drop 26 (uuid_hex u)"
  by (simp add: uuid_str_def Let_def slice_def length_uuid_hex)

lemma uuid_str_head: "slice 0 8 (uuid_str u) = take 8 (uuid_hex u)"
  by (simp add: uuid_str_def Let_def slice_def length_uuid_hex)

section \<open>The configuration files\<close>

lemma files_written: "files (write_file p t (open_w p w)) p = Some t"
  by (simp add: write_file_def open_w_def)

lemma files_written_twice:
  "files (write_file p t2 (write_file p t1 (open_w p w))) p = Some (t1 @ t2)"
  by (simp add: write_file_def open_w_def)

lemma is_hex_not_nl: "is_hex c \<Longrightarrow> c \<noteq> nl"
  by (auto simp: is_hex_def)

lemma is_hex_not_hyphen: "is_hex c \<Longrightarrow> c \<noteq> CHR ''-''"
  by (auto simp: is_hex_def)

lemma all_hex_no_nl: "list_all is_hex s \<Longrightarrow> nl \<notin> set s"
  by (auto simp: list_all_iff dest: is_hex_not_nl)

lemma all_hex_no_hyphen: "list_all is_hex s \<Longrightarrow> CHR ''-'' \<notin> set s"
  by (auto simp: list_all_iff dest: is_hex_not_hyphen)

lemma all_hex_take: "list_all is_hex s \<Longrightarrow> list_all is_hex (take n s)"
  by (auto simp: list_all_iff dest: in_set_takeD)

lemma all_hex_drop: "list_all is_hex s \<Longrightarrow> list_all is_hex (drop n s)"
  by (auto simp: list_all_iff dest: in_set_dropD)

lemma config_hostapd_result:
  "fst (config_hostapd sys w) =
     (''spiro-'' @ drop 26 (uuid_hex (uuid1 sys w)), take 8 (uuid_hex (uuid1 sys w)))"
  by (simp add: config_hostapd_def Let_def uuid_str_tail uuid_str_head)

lemma config_hostapd_content:
  "files (snd (config_hostapd sys w)) ''/etc/hostapd/hostapd.conf'' =
     Some (dedent (format2 hostapd_template (fst (fst (config_hostapd sys w)))
                     (snd (fst (config_hostapd sys w)))))"
  by (simp add: config_hostapd_def Let_def files_written)

lemma credentials_no_nl:
  "nl \<notin> set (fst (fst (config_hostapd sys w)))" "nl \<notin> set (snd (fst (config_hostapd sys w)))"
  using all_hex_no_nl [OF all_hex_drop [OF uuid_hex_is_hex]]
        all_hex_no_nl [OF all_hex_take [OF uuid_hex_is_hex]]
  by (simp_all add: config_hostapd_result)

text \<open>
  C6. \<open>config_dnsmasq\<close> takes no argument besides the world it acts on, and the content
  it leaves in \<open>/etc/dnsmasq.conf\<close> is the same text whatever the world was before:
  two calls, from any two worlds, write byte-identical content, and a second call
  changes nothing.
\<close>

theorem config_dnsmasq_same_content:
  "files (config_dnsmasq w) ''/etc/dnsmasq.conf'' = files (config_dnsmasq w') ''/etc/dnsmasq.conf''
   \<and> files (config_dnsmasq w) ''/etc/dnsmasq.conf'' = Some (join_nl
        [''# auto-generated by spiro software'',
         ''interface=wlan0'',
         ''dhcp-range=192.168.138.10,192.168.138.254,12h'',
         ''address=/#/192.168.138.1'',
         ''no-resolv'',
         ''no-poll'',
         ''no-hosts'',
         ''domain=spiro.local'',
         ''''])
   \<and> config_dnsmasq (config_dnsmasq w) = config_dnsmasq w"
proof -
  have same: "files (config_dnsmasq v) ''/etc/dnsmasq.conf'' = Some (dedent dnsmasq_template)" for v
    by (simp add: config_dnsmasq_def Let_def files_written)
  have again: "config_dnsmasq (config_dnsmasq w) = config_dnsmasq w"
    by (simp add: config_dnsmasq_def Let_def write_file_def open_w_def)
  show ?thesis
    using same [of w] same [of w'] again by (simp only: dnsmasq_text)
qed

text \<open>
  C5. The content \<open>config_dhcpcd\<close> writes with \<open>enable = False\<close> is a strict prefix of
  the content it writes with \<open>enable = True\<close>: the baseline block is the same in both,
  and the static-address block for \<open>wlan0\<close> follows it only when the flag is set.
\<close>

theorem config_dhcpcd_prefix:
  "\<exists>base block.
     files (config_dhcpcd False w) ''/etc/dhcpcd.conf'' = Some base
   \<and> files (config_dhcpcd True w') ''/etc/dhcpcd.conf'' = Some (base @ block)
   \<and> strict_prefix base (base @ block)
   \<and> base = join_nl
        [''# auto-generated by spiro software'',
         ''hostname'',
         ''clientid'',
         ''persistent'',
         ''option rapid_commit'',
         ''option domain_name_servers, domain_name, domain_search, host_name'',
         ''option classless_static_routes'',
         ''option interface_mtu'',
         ''option ntp_servers'',
         ''require dhcp_server_identifier'',
         ''slaac private'',
         '''']
   \<and> block = join_nl
        [''interface wlan0'',
         ''static ip_address=192.168.138.1/24'',
         ''nohook wpa_supplicant'',
         '''']"
proof -
  have off: "files (config_dhcpcd False w) ''/etc/dhcpcd.conf'' = Some (dedent dhcpcd_template)"
    by (simp add: config_dhcpcd_def Let_def files_written)
  have on: "files (config_dhcpcd True w') ''/etc/dhcpcd.conf''
              = Some (dedent dhcpcd_template @ dedent dhcpcd_static_template)"
    by (simp add: config_dhcpcd_def Let_def files_written_twice)
  have "dedent dhcpcd_static_template \<noteq> []"
    by (simp add: dhcpcd_static_text)
  then have "strict_prefix (dedent dhcpcd_template)
               (dedent dhcpcd_template @ dedent dhcpcd_static_template)"
    by (simp add: strict_prefix_def)
  with off on show ?thesis
    unfolding dhcpcd_text dhcpcd_static_text by blast
qed

text \<open>
  C7. Whatever \<open>/etc/hostapd/hostapd.conf\<close> held before, after \<open>config_hostapd\<close> it holds
  the fixed template in which only the \<open>ssid\<close> and \<open>wpa_passphrase\<close> lines vary, and
  they carry the values the function returns: interface \<open>wlan0\<close>, driver \<open>nl80211\<close>,
  mode \<open>g\<close> on channel 7, WPA2 with a pre-shared key, TKIP and CCMP as pairwise ciphers,
  the SSID broadcast and no MAC filter.
\<close>

theorem config_hostapd_file:
  "files (snd (config_hostapd sys w)) ''/etc/hostapd/hostapd.conf'' = Some (join_nl
    [''# auto-generated by spiro software'',
     ''interface=wlan0'',
     ''driver=nl80211'',
     ''ssid='' @ fst (fst (config_hostapd sys w)),
     ''hw_mode=g'',
     ''channel=7'',
     ''wmm_enabled=0'',
     ''macaddr_acl=0'',
     ''auth_algs=1'',
     ''ignore_broadcast_ssid=0'',
     ''wpa=2'',
     ''wpa_passphrase='' @ snd (fst (config_hostapd sys w)),
     ''wpa_key_mgmt=WPA-PSK'',
     ''wpa_pairwise=TKIP'',
     ''rsn_pairwise=CCMP'',
     ''''])"
  unfolding config_hostapd_content
  by (simp only: hostapd_text [OF credentials_no_nl])

text \<open>
  C9. The canonical string of any 128-bit identifier has 36 characters. The passphrase
  \<open>config_hostapd\<close> returns has exactly 8 characters, the SSID exactly 12: the prefix
  \<open>spiro-\<close> and 6 more. The passphrase and the 6 characters after the prefix are
  hexadecimal digits, so neither holds a hyphen, and the passphrase has the 8
  characters WPA2 asks for.
\<close>

theorem credentials_are_hex:
  "length (uuid_str (uuid1 sys w)) = 36
   \<and> length (snd (fst (config_hostapd sys w))) = 8
   \<and> length (fst (fst (config_hostapd sys w))) = 12
   \<and> list_all is_hex (snd (fst (config_hostapd sys w)))
   \<and> take 6 (fst (fst (config_hostapd sys w))) = ''spiro-''
   \<and> list_all is_hex (drop 6 (fst (fst (config_hostapd sys w))))
   \<and> CHR ''-'' \<notin> set (snd (fst (config_hostapd sys w)))
   \<and> CHR ''-'' \<notin> set (drop 6 (fst (fst (config_hostapd sys w))))
   \<and> 8 \<le> length (snd (fst (config_hostapd sys w)))"
proof -
  let ?x = "uuid_hex (uuid1 sys w)"
  have hex: "list_all is_hex (take 8 ?x)" "list_all is_hex (drop 26 ?x)"
    by (simp_all add: all_hex_take all_hex_drop uuid_hex_is_hex)
  then have hy: "CHR ''-'' \<notin> set (take 8 ?x)" "CHR ''-'' \<notin> set (drop 26 ?x)"
    by (simp_all add: all_hex_no_hyphen)
  show ?thesis
    using hex hy by (simp add: config_hostapd_result length_uuid_str length_uuid_hex)
qed

section \<open>The commands the module runs\<close>

text \<open>The loops are unfolded by hand, one step at a time.\<close>

declare install_loop.simps [simp del] restart_loop.simps [simp del]
  enable_loop.simps [simp del] disable_loop.simps [simp del] format2.simps [simp del]

lemma run_facts:
  assumes "run sys argv cap w = (p, w')"
  shows "w' = w\<lparr>calls := calls w @ [p]\<rparr>"
    and "args p = argv"
    and "returncode p = exit_status (spawn sys w argv)"
    and "stdout p = captured_stdout cap (printed (spawn sys w argv))"
  using assms by (auto simp: run_def Let_def)

lemma new_calls_append: "calls w' = calls w @ new \<Longrightarrow> new_calls w w' = new"
  by (simp add: new_calls_def)

lemma install_loop_trace:
  "\<exists>new. snd (install_loop sys rs w) = w\<lparr>calls := calls w @ new\<rparr>
         \<and> install_trace rs new (fst (install_loop sys rs w))
         \<and> (\<not> fst (fst (install_loop sys rs w)) \<longrightarrow>
              new \<noteq> []
              \<and> snd (fst (install_loop sys rs w)) =
                  Some (concat (map snd (printed
                    (spawn sys (w\<lparr>calls := calls w @ butlast new\<rparr>) (args (last new)))))))"
proof (induction rs arbitrary: w)
  case Nil
  show ?case by (simp add: install_loop.simps)
next
  case (Cons r rs)
  obtain q w1 where q: "run sys [''dpkg'', ''-l'', r] StdoutPipe w = (q, w1)"
    by fastforce
  note qf = run_facts [OF q]
  show ?case
  proof (cases "returncode q = 0")
    case True
    from Cons.IH [of w1] obtain new where
      new: "snd (install_loop sys rs w1) = w1\<lparr>calls := calls w1 @ new\<rparr>"
           "install_trace rs new (fst (install_loop sys rs w1))"
           "(\<not> fst (fst (install_loop sys rs w1)) \<longrightarrow>
              new \<noteq> []
              \<and> snd (fst (install_loop sys rs w1)) =
                  Some (concat (map snd (printed
                    (spawn sys (w1\<lparr>calls := calls w1 @ butlast new\<rparr>) (args (last new)))))))"
      by blast
    have step: "install_loop sys (r # rs) w = install_loop sys rs w1"
      using q True by (simp add: install_loop.simps)
    have "snd (install_loop sys (r # rs) w) = w\<lparr>calls := calls w @ (q # new)\<rparr>"
      unfolding step using new(1) qf(1) by simp
    moreover have "install_trace (r # rs) (q # new) (fst (install_loop sys (r # rs) w))"
      unfolding step using new(2) qf(2) True by simp
    moreover have "\<not> fst (fst (install_loop sys (r # rs) w)) \<longrightarrow>
        q # new \<noteq> []
        \<and> snd (fst (install_loop sys (r # rs) w)) =
            Some (concat (map snd (printed
              (spawn sys (w\<lparr>calls := calls w @ butlast (q # new)\<rparr>) (args (last (q # new)))))))"
      unfolding step using new(3) qf(1) by simp
    ultimately show ?thesis by blast
  next
    case False
    obtain i w2 where i: "run sys [''apt'', ''install'', ''-y'', r] StderrToStdout w1 = (i, w2)"
      by fastforce
    note inf = run_facts [OF i]
    show ?thesis
    proof (cases "returncode i = 0")
      case True
      obtain s w3 where s: "run sys [''systemctl'', ''stop'', r] StderrToStdout w2 = (s, w3)"
        by fastforce
      note sf = run_facts [OF s]
      from Cons.IH [of w3] obtain new where
        new: "snd (install_loop sys rs w3) = w3\<lparr>calls := calls w3 @ new\<rparr>"
             "install_trace rs new (fst (install_loop sys rs w3))"
             "(\<not> fst (fst (install_loop sys rs w3)) \<longrightarrow>
              new \<noteq> []
              \<and> snd (fst (install_loop sys rs w3)) =
                  Some (concat (map snd (printed
                    (spawn sys (w3\<lparr>calls := calls w3 @ butlast new\<rparr>) (args (last new)))))))"
        by blast
      have step: "install_loop sys (r # rs) w = install_loop sys rs w3"
        using q i s True False by (simp add: install_loop.simps)
      have "snd (install_loop sys (r # rs) w) = w\<lparr>calls := calls w @ (q # i # s # new)\<rparr>"
        unfolding step using new(1) qf(1) inf(1) sf(1) by simp
      moreover have "install_trace (r # rs) (q # i # s # new) (fst (install_loop sys (r # rs) w))"
        unfolding step using new(2) qf(2) inf(2) sf(2) True False by simp
      moreover have "\<not> fst (fst (install_loop sys (r # rs) w)) \<longrightarrow>
          q # i # s # new \<noteq> []
          \<and> snd (fst (install_loop sys (r # rs) w)) =
              Some (concat (map snd (printed
                (spawn sys (w\<lparr>calls := calls w @ butlast (q # i # s # new)\<rparr>)
                   (args (last (q # i # s # new)))))))"
        unfolding step using new(3) qf(1) inf(1) sf(1) by simp
      ultimately show ?thesis by blast
    next
      case fail: False
      have step: "install_loop sys (r # rs) w = ((False, stdout i), w2)"
        using q i False fail by (simp add: install_loop.simps)
      have "snd (install_loop sys (r # rs) w) = w\<lparr>calls := calls w @ [q, i]\<rparr>"
        unfolding step using qf(1) inf(1) by simp
      moreover have "install_trace (r # rs) [q, i] (fst (install_loop sys (r # rs) w))"
        unfolding step using qf(2) inf(2) False fail by simp
      moreover have "\<not> fst (fst (install_loop sys (r # rs) w)) \<longrightarrow>
          [q, i] \<noteq> []
          \<and> snd (fst (install_loop sys (r # rs) w)) =
              Some (concat (map snd (printed
                (spawn sys (w\<lparr>calls := calls w @ butlast [q, i]\<rparr>) (args (last [q, i]))))))"
        unfolding step using qf(1) inf(2,4) by simp
      ultimately show ?thesis by blast
    qed
  qed
qed


lemma log_frame [simp]:
  "calls (log msg w) = calls w" "files (log msg w) = files w"
  "uuids_drawn (log msg w) = uuids_drawn w" "logged (log msg w) = logged w @ [(Info, msg)]"
  by (simp_all add: log_def)

lemma debug_frame [simp]:
  "calls (debug msg w) = calls w" "files (debug msg w) = files w"
  "uuids_drawn (debug msg w) = uuids_drawn w" "logged (debug msg w) = logged w @ [(Debug, msg)]"
  by (simp_all add: debug_def)

lemma run_frame [simp]:
  "calls (snd (run sys argv cap w)) = calls w @ [fst (run sys argv cap w)]"
  "files (snd (run sys argv cap w)) = files w"
  "uuids_drawn (snd (run sys argv cap w)) = uuids_drawn w"
  "logged (snd (run sys argv cap w)) = logged w"
  "args (fst (run sys argv cap w)) = argv"
  by (simp_all add: run_def Let_def)

lemma init_frame:
  "\<exists>p. calls (init sys w) = calls w @ [p] \<and> args p = [''systemctl'', ''daemon-reload'']"
  "files (init sys w) = files w" "uuids_drawn (init sys w) = uuids_drawn w"
  by (simp_all add: init_def)

lemma install_reqs_frame:
  "\<exists>new. calls (snd (install_reqs sys w)) = calls w @ new"
  "files (snd (install_reqs sys w)) = files w"
  "uuids_drawn (snd (install_reqs sys w)) = uuids_drawn w"
  using install_loop_trace [of sys "[''dnsmasq'', ''hostapd'']" w]
  by (auto simp: install_reqs_def)

lemma config_frame [simp]:
  "calls (config_dhcpcd e w) = calls w" "uuids_drawn (config_dhcpcd e w) = uuids_drawn w"
  "calls (config_dnsmasq w) = calls w" "uuids_drawn (config_dnsmasq w) = uuids_drawn w"
  "calls (snd (config_hostapd sys w)) = calls w"
  "uuids_drawn (snd (config_hostapd sys w)) = uuids_drawn w + 1"
  by (simp_all add: config_dhcpcd_def config_dnsmasq_def config_hostapd_def Let_def
        open_w_def write_file_def)

lemma enable_loop_frame:
  "\<exists>new. calls (enable_loop sys ss w) = calls w @ new
         \<and> map args new = concat (map (\<lambda>s. [[''systemctl'', ''unmask'', s],
                                             [''systemctl'', ''enable'', s]]) ss)
         \<and> files (enable_loop sys ss w) = files w
         \<and> uuids_drawn (enable_loop sys ss w) = uuids_drawn w"
proof (induction ss arbitrary: w)
  case Nil
  show ?case by (simp add: enable_loop.simps disable_loop.simps)
next
  case (Cons s ss)
  let ?w1 = "snd (run sys [''systemctl'', ''unmask'', s] CaptureOutput w)"
  let ?w2 = "snd (run sys [''systemctl'', ''enable'', s] CaptureOutput ?w1)"
  have step: "enable_loop sys (s # ss) w = enable_loop sys ss ?w2"
    by (simp add: enable_loop.simps case_prod_beta)
  from Cons.IH [of ?w2] obtain new where
    "calls (enable_loop sys ss ?w2) = calls ?w2 @ new"
    "map args new = concat (map (\<lambda>s. [[''systemctl'', ''unmask'', s],
                                         [''systemctl'', ''enable'', s]]) ss)"
    "files (enable_loop sys ss ?w2) = files ?w2"
    "uuids_drawn (enable_loop sys ss ?w2) = uuids_drawn ?w2"
    by blast
  then show ?case
    unfolding step
    by (intro exI [of _ "fst (run sys [''systemctl'', ''unmask'', s] CaptureOutput w)
          # fst (run sys [''systemctl'', ''enable'', s] CaptureOutput ?w1) # new"]) simp
qed

lemma disable_loop_frame:
  "\<exists>new. calls (disable_loop sys ss w) = calls w @ new
         \<and> map args new = concat (map (\<lambda>s. [[''systemctl'', ''stop'', s],
                                             [''systemctl'', ''disable'', s]]) ss)
         \<and> files (disable_loop sys ss w) = files w
         \<and> logged (disable_loop sys ss w) = logged w
         \<and> uuids_drawn (disable_loop sys ss w) = uuids_drawn w"
proof (induction ss arbitrary: w)
  case Nil
  show ?case by (simp add: enable_loop.simps disable_loop.simps)
next
  case (Cons s ss)
  let ?w1 = "snd (run sys [''systemctl'', ''stop'', s] CaptureOutput w)"
  let ?w2 = "snd (run sys [''systemctl'', ''disable'', s] CaptureOutput ?w1)"
  have step: "disable_loop sys (s # ss) w = disable_loop sys ss ?w2"
    by (simp add: disable_loop.simps case_prod_beta)
  from Cons.IH [of ?w2] obtain new where
    "calls (disable_loop sys ss ?w2) = calls ?w2 @ new"
    "map args new = concat (map (\<lambda>s. [[''systemctl'', ''stop'', s],
                                         [''systemctl'', ''disable'', s]]) ss)"
    "files (disable_loop sys ss ?w2) = files ?w2"
    "logged (disable_loop sys ss ?w2) = logged ?w2"
    "uuids_drawn (disable_loop sys ss ?w2) = uuids_drawn ?w2"
    by blast
  then show ?case
    unfolding step
    by (intro exI [of _ "fst (run sys [''systemctl'', ''stop'', s] CaptureOutput w)
          # fst (run sys [''systemctl'', ''disable'', s] CaptureOutput ?w1) # new"]) simp
qed

lemma restart_loop_frame:
  "\<exists>new. calls (snd (restart_loop sys ss codes w)) = calls w @ new
         \<and> map args new = map (\<lambda>s. [''systemctl'', ''restart'', s]) ss
         \<and> fst (restart_loop sys ss codes w) = codes @ map returncode new
         \<and> files (snd (restart_loop sys ss codes w)) = files w
         \<and> uuids_drawn (snd (restart_loop sys ss codes w)) = uuids_drawn w"
proof (induction ss arbitrary: codes w)
  case Nil
  show ?case by (simp add: restart_loop.simps)
next
  case (Cons s ss)
  let ?p = "fst (run sys [''systemctl'', ''restart'', s] StderrToStdout w)"
  let ?w1 = "snd (run sys [''systemctl'', ''restart'', s] StderrToStdout w)"
  let ?w2 = "debug (format2 ''Restarted service {0} with status code {1}.'' s
                      (str_int (returncode ?p))) ?w1"
  have step: "restart_loop sys (s # ss) codes w = restart_loop sys ss (codes @ [returncode ?p]) ?w2"
    by (simp add: restart_loop.simps case_prod_beta Let_def)
  from Cons.IH [of "codes @ [returncode ?p]" ?w2] obtain new where
    "calls (snd (restart_loop sys ss (codes @ [returncode ?p]) ?w2)) = calls ?w2 @ new"
    "map args new = map (\<lambda>s. [''systemctl'', ''restart'', s]) ss"
    "fst (restart_loop sys ss (codes @ [returncode ?p]) ?w2) = (codes @ [returncode ?p]) @ map returncode new"
    "files (snd (restart_loop sys ss (codes @ [returncode ?p]) ?w2)) = files ?w2"
    "uuids_drawn (snd (restart_loop sys ss (codes @ [returncode ?p]) ?w2)) = uuids_drawn ?w2"
    by blast
  then show ?case
    unfolding step by (intro exI [of _ "?p # new"]) simp
qed

lemma restart_services_frame:
  "\<exists>p1 p2 p3. calls (snd (restart_services sys w)) = calls w @ [p1, p2, p3]
     \<and> args p1 = [''systemctl'', ''restart'', ''dhcpcd'']
     \<and> args p2 = [''systemctl'', ''restart'', ''dnsmasq'']
     \<and> args p3 = [''systemctl'', ''restart'', ''hostapd'']
     \<and> fst (restart_services sys w) = (returncode p1 = 0 \<and> returncode p2 = 0 \<and> returncode p3 = 0)"
proof -
  from restart_loop_frame [of sys "[''dhcpcd'', ''dnsmasq'', ''hostapd'']" "[]" w]
  obtain new where new:
    "calls (snd (restart_loop sys [''dhcpcd'', ''dnsmasq'', ''hostapd''] [] w)) = calls w @ new"
    "map args new = [[''systemctl'', ''restart'', ''dhcpcd''], [''systemctl'', ''restart'', ''dnsmasq''],
                     [''systemctl'', ''restart'', ''hostapd'']]"
    "fst (restart_loop sys [''dhcpcd'', ''dnsmasq'', ''hostapd''] [] w) = map returncode new"
    by auto
  from new(2) obtain p1 p2 p3 where ps: "new = [p1, p2, p3]"
    by (auto simp: map_eq_Cons_conv)
  show ?thesis
    using new unfolding ps
    by (intro exI [of _ p1] exI [of _ p2] exI [of _ p3])
       (simp add: restart_services_def case_prod_beta)
qed

lemma restart_services_uuids:
  "uuids_drawn (snd (restart_services sys w)) = uuids_drawn w"
  using restart_loop_frame [of sys "[''dhcpcd'', ''dnsmasq'', ''hostapd'']" "[]" w]
  by (auto simp: restart_services_def case_prod_beta)


lemma present_take:
  "present r (take 1 ps) \<Longrightarrow>
     \<exists>q. ps = q # drop 1 ps \<and> args q = [''dpkg'', ''-l'', r] \<and> returncode q = 0"
  by (cases ps) auto

lemma installed_take:
  assumes "installed r (take 3 ps)"
  shows "\<exists>q i s. ps = q # i # s # drop 3 ps
       \<and> args q = [''dpkg'', ''-l'', r] \<and> returncode q \<noteq> 0
       \<and> args i = [''apt'', ''install'', ''-y'', r] \<and> returncode i = 0
       \<and> args s = [''systemctl'', ''stop'', r]"
proof -
  from assms obtain q i s where t: "take 3 ps = [q, i, s]"
    and props: "args q = [''dpkg'', ''-l'', r]" "returncode q \<noteq> 0"
      "args i = [''apt'', ''install'', ''-y'', r]" "returncode i = 0"
      "args s = [''systemctl'', ''stop'', r]"
    by (cases "(r, take 3 ps)" rule: installed.cases) auto
  have "ps = take 3 ps @ drop 3 ps" by simp
  then have "ps = q # i # s # drop 3 ps" unfolding t by simp
  with props show ?thesis by blast
qed

lemma failed_shape:
  "failed r ps \<Longrightarrow>
     \<exists>q i. ps = [q, i] \<and> args q = [''dpkg'', ''-l'', r] \<and> returncode q \<noteq> 0
       \<and> args i = [''apt'', ''install'', ''-y'', r] \<and> returncode i \<noteq> 0"
  by (cases "(r, ps)" rule: failed.cases) auto

lemma install_trace_cases:
  assumes "install_trace (r # rs) ps res"
  obtains
    (found) q rest where "ps = q # rest" "args q = [''dpkg'', ''-l'', r]" "returncode q = 0"
      "install_trace rs rest res"
  | (fresh) q i s rest where "ps = q # i # s # rest"
      "args q = [''dpkg'', ''-l'', r]" "returncode q \<noteq> 0"
      "args i = [''apt'', ''install'', ''-y'', r]" "returncode i = 0"
      "args s = [''systemctl'', ''stop'', r]" "install_trace rs rest res"
  | (broken) q i where "ps = [q, i]"
      "args q = [''dpkg'', ''-l'', r]" "returncode q \<noteq> 0"
      "args i = [''apt'', ''install'', ''-y'', r]" "returncode i \<noteq> 0"
      "res = (False, stdout i)"
proof -
  from assms consider
      "present r (take 1 ps)" "install_trace rs (drop 1 ps) res"
    | "installed r (take 3 ps)" "install_trace rs (drop 3 ps) res"
    | "failed r ps" "res = (False, stdout (last ps))"
    by auto
  then show thesis
  proof cases
    case 1
    from present_take [OF 1(1)] 1(2) show thesis by (blast intro: found)
  next
    case 2
    from installed_take [OF 2(1)] 2(2) show thesis by (blast intro: fresh)
  next
    case 3
    from failed_shape [OF 3(1)] obtain q i where
      "ps = [q, i]" "args q = [''dpkg'', ''-l'', r]" "returncode q \<noteq> 0"
      "args i = [''apt'', ''install'', ''-y'', r]" "returncode i \<noteq> 0"
      by blast
    with 3(2) show thesis by (intro broken [of q i]) simp_all
  qed
qed

lemma install_trace_about:
  "install_trace rs ps res \<Longrightarrow> p \<in> set ps \<Longrightarrow>
     \<exists>r\<in>set rs. args p = [''dpkg'', ''-l'', r] \<or> args p = [''apt'', ''install'', ''-y'', r]
       \<or> args p = [''systemctl'', ''stop'', r]"
proof (induction rs arbitrary: ps)
  case Nil
  then show ?case by simp
next
  case (Cons r rs)
  from Cons.prems(1) show ?case
  proof (cases rule: install_trace_cases)
    case (found q rest)
    with Cons.IH [of rest] Cons.prems(2) show ?thesis by auto
  next
    case (fresh q i s rest)
    with Cons.IH [of rest] Cons.prems(2) show ?thesis by auto
  next
    case (broken q i)
    with Cons.prems(2) show ?thesis by auto
  qed
qed

lemma install_trace_success: "install_trace rs ps res \<Longrightarrow> fst res \<Longrightarrow> snd res = None"
proof (induction rs arbitrary: ps)
  case Nil
  then show ?case by simp
next
  case (Cons r rs)
  from Cons.prems(1) show ?case
  proof (cases rule: install_trace_cases)
    case (found q rest)
    with Cons.IH [of rest] Cons.prems(2) show ?thesis by simp
  next
    case (fresh q i s rest)
    with Cons.IH [of rest] Cons.prems(2) show ?thesis by simp
  next
    case (broken q i)
    with Cons.prems(2) show ?thesis by simp
  qed
qed

lemma install_trace_untouched:
  assumes "install_trace rs ps res" "distinct rs"
    and "q \<in> set ps" "args q = [''dpkg'', ''-l'', r]" "returncode q = 0"
    and "p \<in> set ps"
  shows "args p \<noteq> [''apt'', ''install'', ''-y'', r] \<and> args p \<noteq> [''systemctl'', ''stop'', r]"
  using assms
proof (induction rs arbitrary: ps p)
  case Nil
  then show ?case by simp
next
  case (Cons r0 rs)
  from Cons.prems(1) show ?case
  proof (cases rule: install_trace_cases)
    case (found q0 rest)
    have about: "x \<in> set rest \<Longrightarrow> \<exists>r'\<in>set rs. args x = [''dpkg'', ''-l'', r']
        \<or> args x = [''apt'', ''install'', ''-y'', r'] \<or> args x = [''systemctl'', ''stop'', r']" for x
      using install_trace_about [OF found(4)] by blast
    show ?thesis
    proof (cases "r = r0")
      case True
      with about [of p] Cons.prems(2,6) found(1,2) show ?thesis by auto
    next
      case False
      with Cons.prems(3,4) found(1,2) have "q \<in> set rest" by auto
      with Cons.IH [OF found(4) _ _ Cons.prems(4,5)] Cons.prems(2) have
        "x \<in> set rest \<Longrightarrow> args x \<noteq> [''apt'', ''install'', ''-y'', r]
           \<and> args x \<noteq> [''systemctl'', ''stop'', r]" for x
        by auto
      with Cons.prems(6) found(1,2) show ?thesis by auto
    qed
  next
    case (fresh q0 i0 s0 rest)
    have about: "x \<in> set rest \<Longrightarrow> \<exists>r'\<in>set rs. args x = [''dpkg'', ''-l'', r']
        \<or> args x = [''apt'', ''install'', ''-y'', r'] \<or> args x = [''systemctl'', ''stop'', r']" for x
      using install_trace_about [OF fresh(7)] by blast
    from Cons.prems(3,4,5) fresh(1-6) have q_rest: "q \<in> set rest" by auto
    with about [of q] Cons.prems(2,4) have neq: "r \<noteq> r0" by auto
    from Cons.IH [OF fresh(7) _ q_rest Cons.prems(4,5)] Cons.prems(2) have
      "x \<in> set rest \<Longrightarrow> args x \<noteq> [''apt'', ''install'', ''-y'', r]
         \<and> args x \<noteq> [''systemctl'', ''stop'', r]" for x
      by simp
    with Cons.prems(6) fresh(1-6) neq show ?thesis by auto
  next
    case (broken q0 i0)
    with Cons.prems(3,4,5) show ?thesis by auto
  qed
qed

section \<open>What the module does\<close>

lemma start_ap_parts:
  defines "before \<equiv> \<lambda>sys w. enable_services sys (log ''Starting services...''
      (snd (config_hostapd sys (config_dnsmasq (config_dhcpcd True
        (log ''Configuring system...'' (snd (install_reqs sys (init sys
          (log ''Setting up dependencies...'' w))))))))))"
  shows "fst (start_ap sys w) = (if fst (restart_services sys (before sys w)) then 0 else 1)"
    and "calls (snd (start_ap sys w)) = calls (snd (restart_services sys (before sys w)))"
    and "uuids_drawn (snd (start_ap sys w))
           = uuids_drawn (snd (restart_services sys (before sys w)))"
    and "\<exists>pre. calls (before sys w) = calls w @ pre"
    and "uuids_drawn (before sys w) = uuids_drawn w + 1"
proof -
  show "fst (start_ap sys w) = (if fst (restart_services sys (before sys w)) then 0 else 1)"
    unfolding start_ap_def before_def by (simp add: Let_def case_prod_beta)
  show "calls (snd (start_ap sys w)) = calls (snd (restart_services sys (before sys w)))"
    unfolding start_ap_def before_def by (simp add: Let_def case_prod_beta)
  show "uuids_drawn (snd (start_ap sys w))
           = uuids_drawn (snd (restart_services sys (before sys w)))"
    unfolding start_ap_def before_def by (simp add: Let_def case_prod_beta)
  let ?w1 = "log ''Setting up dependencies...'' w"
  let ?w2 = "init sys ?w1"
  let ?w3 = "snd (install_reqs sys ?w2)"
  let ?w7 = "snd (config_hostapd sys (config_dnsmasq (config_dhcpcd True
        (log ''Configuring system...'' ?w3))))"
  let ?w8 = "log ''Starting services...'' ?w7"
  from init_frame(1) [of sys ?w1] obtain a where a: "calls ?w2 = calls w @ a" by auto
  from install_reqs_frame(1) [of sys ?w2] obtain b where b: "calls ?w3 = calls ?w2 @ b" by blast
  from enable_loop_frame [of sys "[''dnsmasq'', ''hostapd'']" ?w8] obtain c where
    c: "calls (enable_services sys ?w8) = calls ?w8 @ c"
       "uuids_drawn (enable_services sys ?w8) = uuids_drawn ?w8"
    unfolding enable_services_def by blast
  have "calls (before sys w) = calls w @ (a @ b @ c)"
    unfolding before_def using a b c(1) by simp
  then show "\<exists>pre. calls (before sys w) = calls w @ pre" by blast
  show "uuids_drawn (before sys w) = uuids_drawn w + 1"
    unfolding before_def using c(2) by (simp add: install_reqs_frame(3) init_frame(3))
qed

text \<open>
  C1. Whatever the system answers (so whatever \<open>install_reqs\<close> returned, which
  \<open>start_ap\<close> does not look at, and whatever the three restarts exit with), the last
  three commands of \<open>start_ap\<close> are those of \<open>restart_services\<close>, and \<open>start_ap\<close> returns 1
  when \<open>restart_services\<close> returns false and 0 when it returns true.
\<close>

theorem start_ap_exit_code:
  "\<exists>w9 pre p1 p2 p3.
     calls w9 = calls w @ pre
   \<and> new_calls w (snd (start_ap sys w)) = pre @ [p1, p2, p3]
   \<and> new_calls w9 (snd (restart_services sys w9)) = [p1, p2, p3]
   \<and> args p1 = [''systemctl'', ''restart'', ''dhcpcd'']
   \<and> args p2 = [''systemctl'', ''restart'', ''dnsmasq'']
   \<and> args p3 = [''systemctl'', ''restart'', ''hostapd'']
   \<and> fst (restart_services sys w9)
       = (returncode p1 = 0 \<and> returncode p2 = 0 \<and> returncode p3 = 0)
   \<and> fst (start_ap sys w) = (if fst (restart_services sys w9) then 0 else 1)"
proof -
  let ?w9 = "enable_services sys (log ''Starting services...''
      (snd (config_hostapd sys (config_dnsmasq (config_dhcpcd True
        (log ''Configuring system...'' (snd (install_reqs sys (init sys
          (log ''Setting up dependencies...'' w))))))))))"
  from start_ap_parts(4) [of sys w] obtain pre where pre: "calls ?w9 = calls w @ pre"
    by blast
  from restart_services_frame [of sys ?w9] obtain p1 p2 p3 where
    f: "calls (snd (restart_services sys ?w9)) = calls ?w9 @ [p1, p2, p3]"
       "args p1 = [''systemctl'', ''restart'', ''dhcpcd'']"
       "args p2 = [''systemctl'', ''restart'', ''dnsmasq'']"
       "args p3 = [''systemctl'', ''restart'', ''hostapd'']"
       "fst (restart_services sys ?w9)
          = (returncode p1 = 0 \<and> returncode p2 = 0 \<and> returncode p3 = 0)"
    by blast
  have "calls (snd (start_ap sys w)) = calls w @ (pre @ [p1, p2, p3])"
    using start_ap_parts(2) [of sys w] f(1) pre by simp
  then have whole: "new_calls w (snd (start_ap sys w)) = pre @ [p1, p2, p3]"
    by (rule new_calls_append)
  from f(1) have last3: "new_calls ?w9 (snd (restart_services sys ?w9)) = [p1, p2, p3]"
    by (rule new_calls_append)
  have code: "fst (start_ap sys w) = (if fst (restart_services sys ?w9) then 0 else 1)"
    by (rule start_ap_parts(1))
  show ?thesis
    using pre whole last3 f(2-5) code
    by (intro exI [of _ ?w9] exI [of _ pre] exI [of _ p1] exI [of _ p2] exI [of _ p3]) simp
qed

lemma restart_loop_step:
  "restart_loop sys (s # ss) codes w =
     restart_loop sys ss
       (codes @ [exit_status (spawn sys w [''systemctl'', ''restart'', s])])
       (debug (''Restarted service '' @ s @ '' with status code ''
                 @ str_int (exit_status (spawn sys w [''systemctl'', ''restart'', s])) @ ''.'')
          (w\<lparr>calls := calls w @ [fst (run sys [''systemctl'', ''restart'', s] StderrToStdout w)]\<rparr>))"
  by (simp add: restart_loop.simps run_def Let_def
        format2_plain format2_field0 format2_field1 format2.simps(1))

text \<open>
  C2. \<open>restart_services\<close> runs exactly three commands, in this order: the restart of
  \<open>dhcpcd\<close>, of \<open>dnsmasq\<close>, of \<open>hostapd\<close>. All three are run whatever the earlier ones
  returned. Each recorded exit status is the one the system gives for that command in
  the world as it is at that moment (the commands and the debug lines before it
  included), and the result is true if and only if each of the three is 0.
\<close>

theorem restart_services_all_zero:
  "\<exists>p1 p2 p3 w1 w2.
     new_calls w (snd (restart_services sys w)) = [p1, p2, p3]
   \<and> args p1 = [''systemctl'', ''restart'', ''dhcpcd'']
   \<and> returncode p1 = exit_status (spawn sys w [''systemctl'', ''restart'', ''dhcpcd''])
   \<and> w1 = debug (''Restarted service dhcpcd with status code '' @ str_int (returncode p1) @ ''.'')
              (w\<lparr>calls := calls w @ [p1]\<rparr>)
   \<and> args p2 = [''systemctl'', ''restart'', ''dnsmasq'']
   \<and> returncode p2 = exit_status (spawn sys w1 [''systemctl'', ''restart'', ''dnsmasq''])
   \<and> w2 = debug (''Restarted service dnsmasq with status code '' @ str_int (returncode p2) @ ''.'')
              (w1\<lparr>calls := calls w1 @ [p2]\<rparr>)
   \<and> args p3 = [''systemctl'', ''restart'', ''hostapd'']
   \<and> returncode p3 = exit_status (spawn sys w2 [''systemctl'', ''restart'', ''hostapd''])
   \<and> snd (restart_services sys w)
       = debug (''Restarted service hostapd with status code '' @ str_int (returncode p3) @ ''.'')
           (w2\<lparr>calls := calls w2 @ [p3]\<rparr>)
   \<and> fst (restart_services sys w)
       = (returncode p1 = 0 \<and> returncode p2 = 0 \<and> returncode p3 = 0)"
proof -
  define p1 where "p1 = fst (run sys [''systemctl'', ''restart'', ''dhcpcd''] StderrToStdout w)"
  define w1 where "w1 = debug (''Restarted service dhcpcd with status code ''
      @ str_int (returncode p1) @ ''.'') (w\<lparr>calls := calls w @ [p1]\<rparr>)"
  define p2 where "p2 = fst (run sys [''systemctl'', ''restart'', ''dnsmasq''] StderrToStdout w1)"
  define w2 where "w2 = debug (''Restarted service dnsmasq with status code ''
      @ str_int (returncode p2) @ ''.'') (w1\<lparr>calls := calls w1 @ [p2]\<rparr>)"
  define p3 where "p3 = fst (run sys [''systemctl'', ''restart'', ''hostapd''] StderrToStdout w2)"
  define w3 where "w3 = debug (''Restarted service hostapd with status code ''
      @ str_int (returncode p3) @ ''.'') (w2\<lparr>calls := calls w2 @ [p3]\<rparr>)"
  have a1: "args p1 = [''systemctl'', ''restart'', ''dhcpcd'']"
    and r1: "returncode p1 = exit_status (spawn sys w [''systemctl'', ''restart'', ''dhcpcd''])"
    unfolding p1_def by (simp_all add: run_def Let_def)
  have a2: "args p2 = [''systemctl'', ''restart'', ''dnsmasq'']"
    and r2: "returncode p2 = exit_status (spawn sys w1 [''systemctl'', ''restart'', ''dnsmasq''])"
    unfolding p2_def by (simp_all add: run_def Let_def)
  have a3: "args p3 = [''systemctl'', ''restart'', ''hostapd'']"
    and r3: "returncode p3 = exit_status (spawn sys w2 [''systemctl'', ''restart'', ''hostapd''])"
    unfolding p3_def by (simp_all add: run_def Let_def)
  have s1: "restart_loop sys [''dhcpcd'', ''dnsmasq'', ''hostapd''] [] w
      = restart_loop sys [''dnsmasq'', ''hostapd''] [returncode p1] w1"
    by (simp add: restart_loop_step w1_def p1_def run_def Let_def)
  have s2: "restart_loop sys [''dnsmasq'', ''hostapd''] [returncode p1] w1
      = restart_loop sys [''hostapd''] [returncode p1, returncode p2] w2"
    by (simp add: restart_loop_step w2_def p2_def run_def Let_def)
  have s3: "restart_loop sys [''hostapd''] [returncode p1, returncode p2] w2
      = ([returncode p1, returncode p2, returncode p3], w3)"
    by (simp add: restart_loop_step restart_loop.simps(1) w3_def p3_def run_def Let_def)
  have whole: "restart_services sys w
      = (returncode p1 = 0 \<and> returncode p2 = 0 \<and> returncode p3 = 0, w3)"
    unfolding restart_services_def s1 s2 s3 by simp
  have "calls w3 = calls w @ [p1, p2, p3]"
    unfolding w3_def w2_def w1_def by simp
  then have new: "new_calls w w3 = [p1, p2, p3]"
    by (rule new_calls_append)
  show ?thesis
    unfolding whole
    using new a1 r1 a2 r2 a3 r3 w1_def w2_def w3_def
    by (intro exI [of _ p1] exI [of _ p2] exI [of _ p3] exI [of _ w1] exI [of _ w2]) simp
qed

text \<open>
  On a system where the restart of \<open>dnsmasq\<close> exits with 1 and the two others with 0,
  the statuses collected are 0, 1, 0 and the result is false.
\<close>

theorem restart_services_all_zero_witness:
  "map returncode (new_calls fresh_world (snd (restart_services
       (scripted (\<lambda>argv. if argv = [''systemctl'', ''restart'', ''dnsmasq''] then 1 else 0))
       fresh_world))) = [0, 1, 0]
   \<and> fst (restart_services
       (scripted (\<lambda>argv. if argv = [''systemctl'', ''restart'', ''dnsmasq''] then 1 else 0))
       fresh_world) = False"
proof -
  let ?S = "scripted (\<lambda>argv. if argv = [''systemctl'', ''restart'', ''dnsmasq''] then 1 else (0::int))"
  from restart_services_all_zero [where sys = ?S and w = fresh_world]
  obtain p1 p2 p3 w1 w2 where
    new: "new_calls fresh_world (snd (restart_services ?S fresh_world)) = [p1, p2, p3]"
    and r1: "returncode p1 = exit_status (spawn ?S fresh_world [''systemctl'', ''restart'', ''dhcpcd''])"
    and r2: "returncode p2 = exit_status (spawn ?S w1 [''systemctl'', ''restart'', ''dnsmasq''])"
    and r3: "returncode p3 = exit_status (spawn ?S w2 [''systemctl'', ''restart'', ''hostapd''])"
    and res: "fst (restart_services ?S fresh_world)
       = (returncode p1 = 0 \<and> returncode p2 = 0 \<and> returncode p3 = 0)"
    by blast
  from r1 r2 r3 have codes: "returncode p1 = 0" "returncode p2 = 1" "returncode p3 = 0"
    by (simp_all add: scripted_def)
  show ?thesis
    unfolding new res using codes by simp
qed

text \<open>
  C3. For every identifier the generator may return, \<open>config_hostapd\<close> returns as SSID
  \<open>spiro-\<close> followed by the last 6 characters of the identifier's canonical string
  (its last 6 hexadecimal digits) and as passphrase its first 8 characters (its first 8
  hexadecimal digits); the file written has the line \<open>ssid=\<close> with that SSID and the line
  \<open>wpa_passphrase=\<close> with that passphrase. One identifier is drawn per call, and one per
  call of \<open>start_ap\<close>.
\<close>

theorem config_hostapd_credentials:
  "\<exists>content.
     length (uuid_str (uuid1 sys w)) = 36
   \<and> fst (fst (config_hostapd sys w)) = ''spiro-'' @ drop 30 (uuid_str (uuid1 sys w))
   \<and> drop 30 (uuid_str (uuid1 sys w)) = drop 26 (uuid_hex (uuid1 sys w))
   \<and> length (drop 30 (uuid_str (uuid1 sys w))) = 6
   \<and> snd (fst (config_hostapd sys w)) = take 8 (uuid_str (uuid1 sys w))
   \<and> take 8 (uuid_str (uuid1 sys w)) = take 8 (uuid_hex (uuid1 sys w))
   \<and> files (snd (config_hostapd sys w)) ''/etc/hostapd/hostapd.conf'' = Some content
   \<and> ''ssid='' @ fst (fst (config_hostapd sys w)) \<in> set (split_nl content)
   \<and> ''wpa_passphrase='' @ snd (fst (config_hostapd sys w)) \<in> set (split_nl content)
   \<and> uuids_drawn (snd (config_hostapd sys w)) = uuids_drawn w + 1
   \<and> uuids_drawn (snd (start_ap sys w)) = uuids_drawn w + 1"
proof -
  let ?u = "uuid_str (uuid1 sys w)"
  let ?id = "fst (fst (config_hostapd sys w))"
  let ?pwd = "snd (fst (config_hostapd sys w))"
  let ?lines = "[''# auto-generated by spiro software'',
     ''interface=wlan0'',
     ''driver=nl80211'',
     ''ssid='' @ ?id,
     ''hw_mode=g'',
     ''channel=7'',
     ''wmm_enabled=0'',
     ''macaddr_acl=0'',
     ''auth_algs=1'',
     ''ignore_broadcast_ssid=0'',
     ''wpa=2'',
     ''wpa_passphrase='' @ ?pwd,
     ''wpa_key_mgmt=WPA-PSK'',
     ''wpa_pairwise=TKIP'',
     ''rsn_pairwise=CCMP'',
     '''']"
  have tail: "drop 30 ?u = drop 26 (uuid_hex (uuid1 sys w))"
    using uuid_str_tail [of "uuid1 sys w"] by (simp add: slice_def length_uuid_str)
  have head: "take 8 ?u = take 8 (uuid_hex (uuid1 sys w))"
    using uuid_str_head [of "uuid1 sys w"] by (simp add: slice_def)
  have content: "files (snd (config_hostapd sys w)) ''/etc/hostapd/hostapd.conf''
      = Some (join_nl ?lines)"
    unfolding config_hostapd_content by (simp only: hostapd_text [OF credentials_no_nl])
  have "split_nl (join_nl ?lines) = ?lines"
    by (rule split_join_nl) (use credentials_no_nl [of sys w] in simp_all)
  then have lines: "''ssid='' @ ?id \<in> set (split_nl (join_nl ?lines))"
      "''wpa_passphrase='' @ ?pwd \<in> set (split_nl (join_nl ?lines))"
    by simp_all
  have once: "uuids_drawn (snd (start_ap sys w)) = uuids_drawn w + 1"
    using start_ap_parts(3,5) [of sys w] by (simp add: restart_services_uuids)
  have "fst (config_hostapd sys w) = (''spiro-'' @ drop 30 ?u, take 8 ?u)"
    unfolding tail head by (rule config_hostapd_result)
  then have res: "?id = ''spiro-'' @ drop 30 ?u" "?pwd = take 8 ?u"
    by simp_all
  have six: "length (drop 30 ?u) = 6"
    by (simp add: length_uuid_str)
  show ?thesis
    using length_uuid_str [of "uuid1 sys w"] res tail six head content lines once
    by (intro exI [of _ "join_nl ?lines"]) simp
qed

lemma install_loop_answered:
  "\<exists>new. snd (install_loop sys rs w) = w\<lparr>calls := calls w @ new\<rparr> \<and> answered sys w new"
proof (induction rs arbitrary: w)
  case Nil
  show ?case by (intro exI [of _ "[]"]) (simp add: install_loop.simps)
next
  case (Cons r rs)
  obtain q w1 where q: "run sys [''dpkg'', ''-l'', r] StdoutPipe w = (q, w1)"
    by fastforce
  note qf = run_facts [OF q]
  show ?case
  proof (cases "returncode q = 0")
    case True
    from Cons.IH [of w1] obtain new where
      new: "snd (install_loop sys rs w1) = w1\<lparr>calls := calls w1 @ new\<rparr>"
           "answered sys w1 new"
      by blast
    have step: "install_loop sys (r # rs) w = install_loop sys rs w1"
      using q True by (simp add: install_loop.simps)
    have "snd (install_loop sys (r # rs) w) = w\<lparr>calls := calls w @ (q # new)\<rparr>"
      unfolding step using new(1) qf(1) by simp
    moreover have "answered sys w (q # new)"
      using new(2) qf(1,2,3) by simp
    ultimately show ?thesis by blast
  next
    case False
    obtain i w2 where i: "run sys [''apt'', ''install'', ''-y'', r] StderrToStdout w1 = (i, w2)"
      by fastforce
    note inf = run_facts [OF i]
    show ?thesis
    proof (cases "returncode i = 0")
      case True
      obtain s w3 where s: "run sys [''systemctl'', ''stop'', r] StderrToStdout w2 = (s, w3)"
        by fastforce
      note sf = run_facts [OF s]
      from Cons.IH [of w3] obtain new where
        new: "snd (install_loop sys rs w3) = w3\<lparr>calls := calls w3 @ new\<rparr>"
             "answered sys w3 new"
        by blast
      have step: "install_loop sys (r # rs) w = install_loop sys rs w3"
        using q i s True False by (simp add: install_loop.simps)
      have "snd (install_loop sys (r # rs) w) = w\<lparr>calls := calls w @ (q # i # s # new)\<rparr>"
        unfolding step using new(1) qf(1) inf(1) sf(1) by simp
      moreover have "answered sys w (q # i # s # new)"
        using new(2) qf(1,2,3) inf(1,2,3) sf(1,2,3) by simp
      ultimately show ?thesis by blast
    next
      case fail: False
      have step: "install_loop sys (r # rs) w = ((False, stdout i), w2)"
        using q i False fail by (simp add: install_loop.simps)
      have "snd (install_loop sys (r # rs) w) = w\<lparr>calls := calls w @ [q, i]\<rparr>"
        unfolding step using qf(1) inf(1) by simp
      moreover have "answered sys w [q, i]"
        using qf(1,2,3) inf(1,2,3) by simp
      ultimately show ?thesis by blast
    qed
  qed
qed

lemma calls_update_eq:
  "w\<lparr>calls := calls w @ a\<rparr> = w\<lparr>calls := calls w @ b\<rparr> \<Longrightarrow> a = b"
proof -
  assume "w\<lparr>calls := calls w @ a\<rparr> = w\<lparr>calls := calls w @ b\<rparr>"
  then have "calls (w\<lparr>calls := calls w @ a\<rparr>) = calls (w\<lparr>calls := calls w @ b\<rparr>)"
    by simp
  then show "a = b" by simp
qed

text \<open>
  C4. The commands \<open>install_reqs\<close> runs and what it returns follow \<open>install_trace\<close> for
  \<open>dnsmasq\<close> then \<open>hostapd\<close>, on the exit statuses the system gives (\<open>answered\<close>): a
  package whose query exits with 0 gets no other command; one whose query exits
  otherwise is installed and, if that exits with 0, its service is stopped; the first
  installation that exits otherwise ends the run, nothing is tried for the package
  after it, and the result is \<open>False\<close> with what that command printed on both streams.
  The result is \<open>(True, None)\<close> only when every package took one of the first two
  courses. Nothing but the record of commands changes in the world.
\<close>

theorem install_reqs_courses:
  "install_trace [''dnsmasq'', ''hostapd''] (new_calls w (snd (install_reqs sys w)))
     (fst (install_reqs sys w))
   \<and> answered sys w (new_calls w (snd (install_reqs sys w)))
   \<and> snd (install_reqs sys w) = w\<lparr>calls := calls w @ new_calls w (snd (install_reqs sys w))\<rparr>
   \<and> (\<not> fst (fst (install_reqs sys w)) \<longrightarrow>
        snd (fst (install_reqs sys w)) =
          Some (concat (map snd (printed
            (spawn sys (w\<lparr>calls := calls w @ butlast (new_calls w (snd (install_reqs sys w)))\<rparr>)
               (args (last (new_calls w (snd (install_reqs sys w))))))))))"
proof -
  from install_loop_trace [of sys "[''dnsmasq'', ''hostapd'']" w] obtain new where
    new: "snd (install_reqs sys w) = w\<lparr>calls := calls w @ new\<rparr>"
      "install_trace [''dnsmasq'', ''hostapd''] new (fst (install_reqs sys w))"
      "\<not> fst (fst (install_reqs sys w)) \<longrightarrow>
         snd (fst (install_reqs sys w)) =
           Some (concat (map snd (printed
             (spawn sys (w\<lparr>calls := calls w @ butlast new\<rparr>) (args (last new))))))"
    unfolding install_reqs_def by blast
  from install_loop_answered [of sys "[''dnsmasq'', ''hostapd'']" w] obtain new' where
    new': "snd (install_reqs sys w) = w\<lparr>calls := calls w @ new'\<rparr>" "answered sys w new'"
    unfolding install_reqs_def by blast
  from new(1) new'(1) have "new' = new"
    by (intro calls_update_eq [of w]) simp
  with new'(2) have ans: "answered sys w new" by simp
  from new(1) have eq: "new_calls w (snd (install_reqs sys w)) = new"
    by (simp add: new_calls_def)
  show ?thesis
    unfolding eq using new ans by simp
qed

text \<open>
  A run of \<open>install_reqs\<close> in which \<open>dnsmasq\<close> is missing and cannot be installed, and
  one in which every command exits with 0.
\<close>

theorem install_reqs_courses_witness:
  "\<not> fst (fst (install_reqs
       (scripted (\<lambda>argv. if argv = [''dpkg'', ''-l'', ''dnsmasq'']
                            \<or> argv = [''apt'', ''install'', ''-y'', ''dnsmasq''] then 1 else 0))
       fresh_world))
   \<and> snd (fst (install_reqs
       (scripted (\<lambda>argv. if argv = [''dpkg'', ''-l'', ''dnsmasq'']
                            \<or> argv = [''apt'', ''install'', ''-y'', ''dnsmasq''] then 1 else 0))
       fresh_world)) = Some ''out;err;''
   \<and> map args (new_calls fresh_world (snd (install_reqs
       (scripted (\<lambda>argv. if argv = [''dpkg'', ''-l'', ''dnsmasq'']
                            \<or> argv = [''apt'', ''install'', ''-y'', ''dnsmasq''] then 1 else 0))
       fresh_world)))
       = [[''dpkg'', ''-l'', ''dnsmasq''], [''apt'', ''install'', ''-y'', ''dnsmasq'']]
   \<and> map returncode (new_calls fresh_world (snd (install_reqs
       (scripted (\<lambda>argv. if argv = [''dpkg'', ''-l'', ''dnsmasq'']
                            \<or> argv = [''apt'', ''install'', ''-y'', ''dnsmasq''] then 1 else 0))
       fresh_world)))
       = [1, 1]
   \<and> fst (install_reqs (scripted (\<lambda>argv. 0)) fresh_world) = (True, None)
   \<and> map args (new_calls fresh_world (snd (install_reqs (scripted (\<lambda>argv. 0)) fresh_world)))
       = [[''dpkg'', ''-l'', ''dnsmasq''], [''dpkg'', ''-l'', ''hostapd'']]"
proof -
  let ?S = "scripted (\<lambda>argv. if argv = [''dpkg'', ''-l'', ''dnsmasq'']
                            \<or> argv = [''apt'', ''install'', ''-y'', ''dnsmasq''] then 1 else (0::int))"
  let ?Z = "scripted (\<lambda>argv. (0::int))"
  let ?new = "new_calls fresh_world (snd (install_reqs ?S fresh_world))"
  let ?newz = "new_calls fresh_world (snd (install_reqs ?Z fresh_world))"
  have run: "map args ?new
       = [[''dpkg'', ''-l'', ''dnsmasq''], [''apt'', ''install'', ''-y'', ''dnsmasq'']]"
    by (simp add: install_reqs_def install_loop.simps run_def Let_def scripted_def
          fresh_world_def new_calls_def)
  have hyp: "\<not> fst (fst (install_reqs ?S fresh_world))"
    by (simp add: install_reqs_def install_loop.simps run_def Let_def scripted_def)
  note inst = install_reqs_courses [where sys = ?S and w = fresh_world]
  from inst hyp
  have "snd (fst (install_reqs ?S fresh_world)) =
          Some (concat (map snd (printed
            (spawn ?S (fresh_world\<lparr>calls := calls fresh_world @ butlast ?new\<rparr>)
               (args (last ?new))))))"
    by blast
  then have out: "snd (fst (install_reqs ?S fresh_world)) = Some ''out;err;''"
    by (simp add: scripted_def)
  from run obtain q i where qi: "?new = [q, i]" "args q = [''dpkg'', ''-l'', ''dnsmasq'']"
      "args i = [''apt'', ''install'', ''-y'', ''dnsmasq'']"
    by (auto simp: map_eq_Cons_conv)
  from inst have "answered ?S fresh_world ?new" by blast
  then have codes: "map returncode ?new = [1, 1]"
    unfolding qi(1) using qi(2,3) by (simp add: scripted_def)
  have zero: "fst (install_reqs ?Z fresh_world) = (True, None)"
      "map args ?newz = [[''dpkg'', ''-l'', ''dnsmasq''], [''dpkg'', ''-l'', ''hostapd'']]"
    by (simp_all add: install_reqs_def install_loop.simps run_def Let_def scripted_def
          fresh_world_def new_calls_def)
  from hyp out run codes zero show ?thesis by simp
qed

text \<open>
  C8. \<open>stop_ap\<close> runs four commands and no other: stop then disable for \<open>dnsmasq\<close>, stop
  then disable for \<open>hostapd\<close>; none of them names \<open>dhcpcd\<close>. It logs that it starts and
  that it is done, and leaves the content of every file as it was. It returns no
  value: the model's result is the world alone.
\<close>

theorem stop_ap_only_disables:
  "map args (new_calls w (stop_ap sys w)) =
     [[''systemctl'', ''stop'', ''dnsmasq''], [''systemctl'', ''disable'', ''dnsmasq''],
      [''systemctl'', ''stop'', ''hostapd''], [''systemctl'', ''disable'', ''hostapd'']]
   \<and> files (stop_ap sys w) = files w
   \<and> logged (stop_ap sys w)
       = logged w @ [(Info, ''Disabling services...''), (Info, ''Access point disabled.'')]
   \<and> uuids_drawn (stop_ap sys w) = uuids_drawn w"
proof -
  let ?w1 = "log ''Disabling services...'' w"
  from disable_loop_frame [of sys "[''dnsmasq'', ''hostapd'']" ?w1] obtain new where
    d: "calls (disable_services sys ?w1) = calls ?w1 @ new"
       "map args new = [[''systemctl'', ''stop'', ''dnsmasq''], [''systemctl'', ''disable'', ''dnsmasq''],
          [''systemctl'', ''stop'', ''hostapd''], [''systemctl'', ''disable'', ''hostapd'']]"
       "files (disable_services sys ?w1) = files ?w1"
       "logged (disable_services sys ?w1) = logged ?w1"
       "uuids_drawn (disable_services sys ?w1) = uuids_drawn ?w1"
    unfolding disable_services_def by auto
  have "calls (stop_ap sys w) = calls w @ new"
    using d(1) by (simp add: stop_ap_def Let_def)
  then have "new_calls w (stop_ap sys w) = new" by (rule new_calls_append)
  then show ?thesis
    using d(2-5) by (simp add: stop_ap_def Let_def)
qed

text \<open>
  C10. When the query for a package exits with 0, \<open>install_reqs\<close> runs neither the
  installation nor the stop of its service; and when \<open>install_reqs\<close> returns success,
  the second component of its result is \<open>None\<close>.
\<close>

theorem install_reqs_present_untouched:
  "(\<forall>q\<in>set (new_calls w (snd (install_reqs sys w))).
      args q = [''dpkg'', ''-l'', r] \<and> returncode q = 0 \<longrightarrow>
      (\<forall>p\<in>set (new_calls w (snd (install_reqs sys w))).
         args p \<noteq> [''apt'', ''install'', ''-y'', r] \<and> args p \<noteq> [''systemctl'', ''stop'', r]))
   \<and> (fst (fst (install_reqs sys w)) \<longrightarrow> snd (fst (install_reqs sys w)) = None)"
proof -
  from install_loop_trace [of sys "[''dnsmasq'', ''hostapd'']" w] obtain new where
    new: "snd (install_reqs sys w) = w\<lparr>calls := calls w @ new\<rparr>"
      "install_trace [''dnsmasq'', ''hostapd''] new (fst (install_reqs sys w))"
    unfolding install_reqs_def by blast
  from new(1) have eq: "new_calls w (snd (install_reqs sys w)) = new"
    by (simp add: new_calls_def)
  have "distinct [''dnsmasq'', ''hostapd'']" by simp
  from install_trace_untouched [OF new(2) this]
  have "\<forall>q\<in>set new. args q = [''dpkg'', ''-l'', r] \<and> returncode q = 0 \<longrightarrow>
      (\<forall>p\<in>set new. args p \<noteq> [''apt'', ''install'', ''-y'', r]
         \<and> args p \<noteq> [''systemctl'', ''stop'', r])"
    by blast
  moreover have "fst (fst (install_reqs sys w)) \<longrightarrow> snd (fst (install_reqs sys w)) = None"
    using install_trace_success [OF new(2)] by blast
  ultimately show ?thesis unfolding eq by blast
qed

text \<open>
  A run of \<open>install_reqs\<close> in which \<open>dnsmasq\<close> is there and \<open>hostapd\<close> is installed.
\<close>

theorem install_reqs_present_untouched_witness:
  "map args (new_calls fresh_world (snd (install_reqs
       (scripted (\<lambda>argv. if argv = [''dpkg'', ''-l'', ''hostapd''] then 1 else 0)) fresh_world)))
     = [[''dpkg'', ''-l'', ''dnsmasq''], [''dpkg'', ''-l'', ''hostapd''],
        [''apt'', ''install'', ''-y'', ''hostapd''], [''systemctl'', ''stop'', ''hostapd'']]
   \<and> map returncode (new_calls fresh_world (snd (install_reqs
       (scripted (\<lambda>argv. if argv = [''dpkg'', ''-l'', ''hostapd''] then 1 else 0)) fresh_world)))
     = [0, 1, 0, 0]
   \<and> list_all (\<lambda>p. args p \<noteq> [''apt'', ''install'', ''-y'', ''dnsmasq'']
                  \<and> args p \<noteq> [''systemctl'', ''stop'', ''dnsmasq''])
       (new_calls fresh_world (snd (install_reqs
         (scripted (\<lambda>argv. if argv = [''dpkg'', ''-l'', ''hostapd''] then 1 else 0)) fresh_world)))
   \<and> fst (install_reqs
       (scripted (\<lambda>argv. if argv = [''dpkg'', ''-l'', ''hostapd''] then 1 else 0)) fresh_world)
     = (True, None)"
proof -
  let ?S = "scripted (\<lambda>argv. if argv = [''dpkg'', ''-l'', ''hostapd''] then 1 else (0::int))"
  let ?new = "new_calls fresh_world (snd (install_reqs ?S fresh_world))"
  have run: "map args ?new = [[''dpkg'', ''-l'', ''dnsmasq''], [''dpkg'', ''-l'', ''hostapd''],
        [''apt'', ''install'', ''-y'', ''hostapd''], [''systemctl'', ''stop'', ''hostapd'']]"
      "map returncode ?new = [0, 1, 0, 0]"
    by (simp_all add: install_reqs_def install_loop.simps run_def Let_def scripted_def
          fresh_world_def new_calls_def)
  have ok: "fst (fst (install_reqs ?S fresh_world))"
    by (simp add: install_reqs_def install_loop.simps run_def Let_def scripted_def)
  from run obtain q rest where q: "?new = q # rest" "args q = [''dpkg'', ''-l'', ''dnsmasq'']"
      "returncode q = 0"
    by (auto simp: map_eq_Cons_conv)
  then have hyp: "q \<in> set ?new" by simp
  from install_reqs_present_untouched [where sys = ?S and w = fresh_world and r = "''dnsmasq''"]
    hyp q(2,3) ok
  have "\<forall>p\<in>set ?new. args p \<noteq> [''apt'', ''install'', ''-y'', ''dnsmasq'']
          \<and> args p \<noteq> [''systemctl'', ''stop'', ''dnsmasq'']"
    and "snd (fst (install_reqs ?S fresh_world)) = None"
    by blast+
  with run ok show ?thesis
    by (simp add: list_all_iff prod_eq_iff)
qed

text \<open>
  Two runs on sample systems: exit statuses 0, 1, 0 of the three restarts give false,
  three zeros give true; \<open>start_ap\<close> returns 0 after \<open>install_reqs\<close> failed when the
  restarts succeed, and 1 when the restart of \<open>hostapd\<close> fails.
\<close>

lemma restart_services_example:
  "fst (restart_services
     (scripted (\<lambda>argv. if argv = [''systemctl'', ''restart'', ''dnsmasq''] then 1 else 0)) w)
     = False
   \<and> fst (restart_services (scripted (\<lambda>argv. 0)) w) = True"
  by (simp add: restart_services_def restart_loop.simps run_def Let_def scripted_def)

lemma start_ap_example:
  "fst (install_reqs (scripted (\<lambda>argv. if hd argv = ''systemctl'' then 0 else 1)) w)
     = (False, Some ''out;err;'')
   \<and> fst (start_ap (scripted (\<lambda>argv. if hd argv = ''systemctl'' then 0 else 1)) w) = 0
   \<and> fst (start_ap (scripted (\<lambda>argv. if argv = [''systemctl'', ''restart'', ''hostapd''] then 1 else 0)) w) = 1"
  by (simp add: start_ap_parts(1) install_reqs_def install_loop.simps
        restart_services_def restart_loop.simps run_def Let_def scripted_def)

end
